theory Spec2Isabelle
  imports Complex_Main "HOL-Library.Sublist"
begin

section \<open>Stock news monitoring: a model of \<open>main.py\<close>\<close>

text \<open>
  The script fetches a daily price series, computes the day-over-day change of the two
  first closes, and when the change exceeds a threshold fetches news, formats one text
  per article and sends each text as an SMS. The model follows \<open>main.py\<close> function by
  function. Conventions:
  \<^item> a value decoded from JSON is a \<open>json\<close>; a Python \<open>dict\<close> keeps its items in
    insertion order, so an object is the list of its items (keys distinct in a real dict);
  \<^item> a Python \<open>str\<close> is the \<open>string\<close> of its UTF-8 bytes;
  \<^item> a Python \<open>float\<close> is the rational it denotes: the arithmetic of lines 62 and 66 is
    exact here, so the binary rounding error of IEEE doubles and the non-finite floats
    (\<open>inf\<close>, \<open>nan\<close>) are not part of the model;
  \<^item> an exception is a value of \<open>error\<close> on the left of a sum;
  \<^item> the outside world is an argument: the reply of each HTTP request, and the send
    operation of the messaging client as a function on an explicit world state.
\<close>

subsection \<open>Values and exceptions\<close>

datatype json =
    JNull
  | JBool bool
  | JInt int
  | JFloat rat
  | JStr string
  | JArr "json list"
  | JObj "(string \<times> json) list"

text \<open>
  The exception classes the script can meet. \<open>RequestException\<close> is the class of
  \<open>requests\<close> caught on lines 145 and 156; \<open>TwilioException\<close> stands for a failure of
  \<open>client.messages.create\<close>; the others are Python's built-in classes.
\<close>

datatype error =
    RequestException
  | KeyError
  | IndexError
  | TypeError
  | AttributeError
  | ValueError
  | ZeroDivisionError
  | TwilioException

text \<open>
  The outcome of \<open>requests.get\<close>, \<open>raise_for_status\<close> and \<open>response.json()\<close>: either a
  \<open>RequestException\<close> was raised or the body was decoded to a JSON object, kept as its
  list of fields. The type of the fields is a parameter: any JSON value for the quote
  provider, and an array for the news provider, the shape NewsAPI documents for
  \<open>articles\<close>.
\<close>

datatype 'v http_reply = RequestFailed | Body "(string \<times> 'v) list"

datatype direction = Up | Down

subsection \<open>Python's built-in operations\<close>

text \<open>\<open>d[key]\<close> on a value: only a dict can be subscripted by a string.\<close>

fun py_getitem :: "json \<Rightarrow> string \<Rightarrow> error + json" where
  "py_getitem (JObj kvs) k = (case map_of kvs k of None \<Rightarrow> Inl KeyError | Some v \<Rightarrow> Inr v)"
| "py_getitem _ k = Inl TypeError"

text \<open>\<open>d.items()\<close>: a value that is not a dict has no such attribute.\<close>

fun py_items :: "json \<Rightarrow> error + (string \<times> json) list" where
  "py_items (JObj kvs) = Inr kvs"
| "py_items _ = Inl AttributeError"

text \<open>\<open>d.get(key, default)\<close>: the bound value when the key is present, whatever it is.\<close>

fun py_get :: "json \<Rightarrow> string \<Rightarrow> json \<Rightarrow> error + json" where
  "py_get (JObj kvs) k dflt = Inr (case map_of kvs k of None \<Rightarrow> dflt | Some v \<Rightarrow> v)"
| "py_get _ k dflt = Inl AttributeError"

text \<open>\<open>xs[i]\<close> on a list, for an index that is not negative.\<close>

definition py_index :: "'a list \<Rightarrow> nat \<Rightarrow> error + 'a" where
  "py_index xs i = (if i < length xs then Inr (xs ! i) else Inl IndexError)"

text \<open>
  \<open>float(v)\<close>. The conversion of a \<open>str\<close> is Python's own parser and is taken as the
  parameter \<open>pf\<close>: \<open>pf s\<close> is the value of \<open>float(s)\<close>, or \<open>None\<close> when it raises
  \<open>ValueError\<close>. Numbers and booleans convert; \<open>None\<close>, lists and dicts raise \<open>TypeError\<close>.
\<close>

fun py_float :: "(string \<Rightarrow> rat option) \<Rightarrow> json \<Rightarrow> error + rat" where
  "py_float pf (JStr s) = (case pf s of None \<Rightarrow> Inl ValueError | Some r \<Rightarrow> Inr r)"
| "py_float pf (JFloat r) = Inr r"
| "py_float pf (JInt i) = Inr (of_int i)"
| "py_float pf (JBool b) = Inr (if b then 1 else 0)"
| "py_float pf _ = Inl TypeError"

text \<open>
  \<open>round(x)\<close> with one argument: the nearest integer, a tie going to the even neighbour.
\<close>

definition py_round :: "rat \<Rightarrow> int" where
  "py_round x =
     (let f = \<lfloor>x\<rfloor>; d = x - of_int f
      in if d < 1 / 2 then f
         else if 1 / 2 < d then f + 1
         else if even f then f else f + 1)"

text \<open>\<open>str(n)\<close> of an integer: its decimal digits, with a minus sign when negative.\<close>

definition digit_char :: "nat \<Rightarrow> char" where
  "digit_char d = ''0123456789'' ! d"

fun nat_digits :: "nat \<Rightarrow> string" where
  "nat_digits n = (if n < 10 then [digit_char n] else nat_digits (n div 10) @ [digit_char (n mod 10)])"

definition str_int :: "int \<Rightarrow> string" where
  "str_int i = (if i < 0 then CHR ''-'' # nat_digits (nat (- i)) else nat_digits (nat i))"

text \<open>
  \<open>str(v)\<close> as an f-string field renders it. The text of a float, a list or a dict is
  Python's \<open>repr\<close> and is taken as the parameter \<open>rp\<close>.
\<close>

fun py_str :: "(json \<Rightarrow> string) \<Rightarrow> json \<Rightarrow> string" where
  "py_str rp JNull = ''None''"
| "py_str rp (JBool b) = (if b then ''True'' else ''False'')"
| "py_str rp (JInt i) = str_int i"
| "py_str rp (JStr s) = s"
| "py_str rp v = rp v"

text \<open>
  A concrete \<open>pf\<close> for evaluation: plain decimal literals, an optional sign, digits and an
  optional fraction (\<open>219.00\<close>, \<open>-0.5\<close>), on which it agrees with \<open>float\<close>. Every other
  string is rejected.
\<close>

definition digit_of :: "char \<Rightarrow> nat option" where
  "digit_of c =
     (let n = (of_char c :: nat) in if 48 \<le> n \<and> n \<le> 57 then Some (n - 48) else None)"

fun digits_value :: "nat \<Rightarrow> string \<Rightarrow> nat option" where
  "digits_value acc [] = Some acc"
| "digits_value acc (c # cs) =
     (case digit_of c of None \<Rightarrow> None | Some d \<Rightarrow> digits_value (10 * acc + d) cs)"

definition unsigned_decimal :: "string \<Rightarrow> rat option" where
  "unsigned_decimal s =
     (let ip = takeWhile (\<lambda>c. c \<noteq> CHR ''.'') s; rest = dropWhile (\<lambda>c. c \<noteq> CHR ''.'') s
      in if ip = [] then None
         else case digits_value 0 ip of
           None \<Rightarrow> None
         | Some i \<Rightarrow>
             (case rest of
                [] \<Rightarrow> Some (of_nat i)
              | _ # fp \<Rightarrow>
                  (case digits_value 0 fp of
                     None \<Rightarrow> None
                   | Some f \<Rightarrow> Some (of_nat i + of_nat f / 10 ^ length fp))))"

definition decimal_float :: "string \<Rightarrow> rat option" where
  "decimal_float s =
     (case s of
        [] \<Rightarrow> None
      | c # cs \<Rightarrow>
          if c = CHR ''-'' then map_option uminus (unsigned_decimal cs)
          else if c = CHR ''+'' then unsigned_decimal cs
          else unsigned_decimal s)"

subsection \<open>Price fetcher and change calculator\<close>

text \<open>
  \<open>get_stock_data\<close>, lines 25-45. The request parameters only select the reply, which is
  the argument. Line 44 raises for a failed request; line 45 subscripts the decoded body.
\<close>

definition get_stock_data :: "json http_reply \<Rightarrow> error + json" where
  "get_stock_data reply =
     (case reply of
        RequestFailed \<Rightarrow> Inl RequestException
      | Body fields \<Rightarrow> py_getitem (JObj fields) ''Time Series (Daily)'')"

text \<open>
  \<open>calculate_price_difference\<close>, lines 48-67. Line 58 lists the values in iteration
  order; lines 59 and 60 read the closes of the first and of the second, each of
  \<open>data_list[i]\<close>, \<open>[...]["4. close"]\<close> and \<open>float(...)\<close> able to raise, in that order;
  line 66 divides by the first close.
\<close>

definition close_at :: "(string \<Rightarrow> rat option) \<Rightarrow> json list \<Rightarrow> nat \<Rightarrow> error + rat" where
  "close_at pf data_list i =
     (case py_index data_list i of
        Inl e \<Rightarrow> Inl e
      | Inr bar \<Rightarrow>
          (case py_getitem bar ''4. close'' of
             Inl e \<Rightarrow> Inl e
           | Inr v \<Rightarrow> py_float pf v))"

definition calculate_price_difference ::
    "(string \<Rightarrow> rat option) \<Rightarrow> json \<Rightarrow> error + (int \<times> direction)" where
  "calculate_price_difference pf data =
     (case py_items data of
        Inl e \<Rightarrow> Inl e
      | Inr items \<Rightarrow>
          (let data_list = map snd items in
           case close_at pf data_list 0 of
             Inl e \<Rightarrow> Inl e
           | Inr yesterday_closing_price \<Rightarrow>
               (case close_at pf data_list 1 of
                  Inl e \<Rightarrow> Inl e
                | Inr day_before_yesterday_closing_price \<Rightarrow>
                    (let difference = yesterday_closing_price - day_before_yesterday_closing_price;
                         up_down = (if 0 < difference then Up else Down)
                     in if yesterday_closing_price = 0 then Inl ZeroDivisionError
                        else Inr (py_round (difference / yesterday_closing_price * 100), up_down)))))"

subsection \<open>News fetcher\<close>

text \<open>
  \<open>get_news_articles\<close>, lines 70-93: line 91 raises for a failed request, line 92
  subscripts the body, line 93 keeps the first \<open>num_articles\<close> articles.
\<close>

definition get_news_articles :: "(json list) http_reply \<Rightarrow> nat \<Rightarrow> error + json list" where
  "get_news_articles reply num_articles =
     (case reply of
        RequestFailed \<Rightarrow> Inl RequestException
      | Body fields \<Rightarrow>
          (case map_of fields ''articles'' of
             None \<Rightarrow> Inl KeyError
           | Some articles \<Rightarrow> Inr (take num_articles articles)))"

subsection \<open>Message formatter\<close>

text \<open>
  The two emoji of line 63 are the constructors of \<open>direction\<close>; \<open>emoji\<close> is their text
  (U+1F53A and U+1F53B). The defaults of lines 110 and 111 are the Portuguese for
  "title not available" and "description not available"; their accented letters are
  two bytes each.
\<close>

definition emoji :: "direction \<Rightarrow> string" where
  "emoji d = [CHR 0xF0, CHR 0x9F, CHR 0x94, (case d of Up \<Rightarrow> CHR 0xBA | Down \<Rightarrow> CHR 0xBB)]"

definition nao_disponivel :: string where
  "nao_disponivel =
     '' n'' @ [CHR 0xC3, CHR 0xA3] @ ''o dispon'' @ [CHR 0xC3, CHR 0xAD] @ ''vel''"

definition TITLE_DEFAULT :: string where
  "TITLE_DEFAULT = ''T'' @ [CHR 0xC3, CHR 0xAD] @ ''tulo'' @ nao_disponivel"

definition DESCRIPTION_DEFAULT :: string where
  "DESCRIPTION_DEFAULT =
     ''Descri'' @ [CHR 0xC3, CHR 0xA7, CHR 0xC3, CHR 0xA3] @ ''o'' @ nao_disponivel"

text \<open>
  The f-string of line 112, given the texts of its five fields. The percent is the
  integer that \<open>round\<close> returned.
\<close>

definition sms_text :: "string \<Rightarrow> string \<Rightarrow> int \<Rightarrow> string \<Rightarrow> string \<Rightarrow> string" where
  "sms_text stock_symbol up_down_emoji diff_percent headline brief =
     stock_symbol @ '': '' @ up_down_emoji @ str_int diff_percent
       @ ''%\<newline>Manchete: '' @ headline @ ''. \<newline>Resumo: '' @ brief"

text \<open>
  \<open>format_news_articles\<close>, lines 96-114. The loop appends one message per article to
  \<open>formatted_messages\<close>; \<open>article.get\<close> raises when an article is not a dict.
\<close>

fun format_loop ::
    "(json \<Rightarrow> string) \<Rightarrow> string \<Rightarrow> int \<Rightarrow> string \<Rightarrow> json list \<Rightarrow> string list \<Rightarrow> error + string list" where
  "format_loop rp stock_symbol diff_percent up_down_emoji [] formatted_messages =
     Inr formatted_messages"
| "format_loop rp stock_symbol diff_percent up_down_emoji (article # articles) formatted_messages =
     (case py_get article ''title'' (JStr TITLE_DEFAULT) of
        Inl e \<Rightarrow> Inl e
      | Inr headline \<Rightarrow>
          (case py_get article ''description'' (JStr DESCRIPTION_DEFAULT) of
             Inl e \<Rightarrow> Inl e
           | Inr brief \<Rightarrow>
               format_loop rp stock_symbol diff_percent up_down_emoji articles
                 (formatted_messages @
                    [sms_text stock_symbol up_down_emoji diff_percent
                       (py_str rp headline) (py_str rp brief)])))"

definition format_news_articles ::
    "(json \<Rightarrow> string) \<Rightarrow> json list \<Rightarrow> string \<Rightarrow> int \<Rightarrow> string \<Rightarrow> error + string list" where
  "format_news_articles rp articles stock_symbol diff_percent up_down_emoji =
     format_loop rp stock_symbol diff_percent up_down_emoji articles []"

subsection \<open>Notifier\<close>

text \<open>
  What a run does is recorded as a trace: each call of a service function, each attempt
  to send a body through \<open>client.messages.create\<close>, and each line printed.
\<close>

datatype report =
    StockError            \<comment> \<open>line 146\<close>
  | NewsError             \<comment> \<open>line 157\<close>
  | NoArticles            \<comment> \<open>line 167\<close>
  | BelowThreshold int int \<comment> \<open>line 169: the percent and the threshold\<close>
  | SmsStatus string      \<comment> \<open>line 135\<close>
  | SmsError error        \<comment> \<open>line 137\<close>

datatype event =
    GetStockData
  | CalculatePriceDifference
  | GetNewsArticles
  | FormatNewsArticles
  | SendSmsMessages
  | MessagesCreate string
  | Print report

text \<open>
  \<open>send_sms_messages\<close>, lines 117-137. The client's send operation is the argument
  \<open>create\<close>: given a body and the state of the world it returns a status or raises, and
  a new state. Each send is wrapped in its own \<open>try\<close>: line 136 catches every exception
  and the loop goes on. The construction of the client on line 127 is not modelled.
\<close>

fun send_loop ::
    "(string \<Rightarrow> 'w \<Rightarrow> (error + string) \<times> 'w) \<Rightarrow> string list \<Rightarrow> 'w \<Rightarrow> event list \<times> 'w" where
  "send_loop create [] w = ([], w)"
| "send_loop create (message_body # messages) w =
     (case create message_body w of
        (Inr status, w') \<Rightarrow>
          (let (evs, w'') = send_loop create messages w'
           in (MessagesCreate message_body # Print (SmsStatus status) # evs, w''))
      | (Inl e, w') \<Rightarrow>
          (let (evs, w'') = send_loop create messages w'
           in (MessagesCreate message_body # Print (SmsError e) # evs, w'')))"

definition send_sms_messages ::
    "(string \<Rightarrow> 'w \<Rightarrow> (error + string) \<times> 'w) \<Rightarrow> string list \<Rightarrow> 'w \<Rightarrow> event list \<times> 'w" where
  "send_sms_messages create messages w =
     (let (evs, w') = send_loop create messages w in (SendSmsMessages # evs, w'))"

text \<open>The bodies a trace attempted to send, in order.\<close>

fun attempted :: "event list \<Rightarrow> string list" where
  "attempted [] = []"
| "attempted (MessagesCreate body # evs) = body # attempted evs"
| "attempted (_ # evs) = attempted evs"

subsection \<open>The main program\<close>

definition PERCENTAGE_THRESHOLD :: int where
  "PERCENTAGE_THRESHOLD = 1"

definition STOCK_NAME :: string where
  "STOCK_NAME = ''TSLA''"

text \<open>
  How a run ends: it falls off the end of the script, it calls \<open>exit()\<close> on line 147, or
  an exception that no handler catches ends it with a traceback.
\<close>

datatype outcome = Done | Exited | Uncaught error

text \<open>
  Lines 141-169. The handlers of lines 145 and 156 catch \<open>RequestException\<close> only; the
  calls of lines 150, 162 and 165 have no handler. \<open>get_news_articles\<close> is called with
  its default of 3 articles. \<open>notify\<close> is the block of lines 160-167, which runs on the
  articles fetched or, after the handler of line 156, on the empty list.
\<close>

definition notify ::
    "(json \<Rightarrow> string) \<Rightarrow> (string \<Rightarrow> 'w \<Rightarrow> (error + string) \<times> 'w) \<Rightarrow> 'w \<Rightarrow>
     int \<Rightarrow> direction \<Rightarrow> json list \<Rightarrow> event list \<times> outcome \<times> 'w" where
  "notify rp create w diff_percent up_down articles =
     (if articles \<noteq> [] then
        (case format_news_articles rp articles STOCK_NAME diff_percent (emoji up_down) of
           Inl e \<Rightarrow> ([FormatNewsArticles], Uncaught e, w)
         | Inr formatted_messages \<Rightarrow>
             (let (evs, w') = send_sms_messages create formatted_messages w
              in (FormatNewsArticles # evs, Done, w')))
      else ([Print NoArticles], Done, w))"

definition main ::
    "(string \<Rightarrow> rat option) \<Rightarrow> (json \<Rightarrow> string) \<Rightarrow> json http_reply \<Rightarrow> (json list) http_reply \<Rightarrow>
     (string \<Rightarrow> 'w \<Rightarrow> (error + string) \<times> 'w) \<Rightarrow> 'w \<Rightarrow> event list \<times> outcome \<times> 'w" where
  "main pf rp stock_reply news_reply create w =
     (case get_stock_data stock_reply of
        Inl e \<Rightarrow>
          (if e = RequestException then ([GetStockData, Print StockError], Exited, w)
           else ([GetStockData], Uncaught e, w))
      | Inr stock_data \<Rightarrow>
          (case calculate_price_difference pf stock_data of
             Inl e \<Rightarrow> ([GetStockData, CalculatePriceDifference], Uncaught e, w)
           | Inr (diff_percent, up_down) \<Rightarrow>
               (if PERCENTAGE_THRESHOLD < \<bar>diff_percent\<bar> then
                  (case get_news_articles news_reply 3 of
                     Inl e \<Rightarrow>
                       (if e = RequestException then
                          (let (evs, out, w') = notify rp create w diff_percent up_down []
                           in ([GetStockData, CalculatePriceDifference, GetNewsArticles,
                                Print NewsError] @ evs, out, w'))
                        else ([GetStockData, CalculatePriceDifference, GetNewsArticles],
                              Uncaught e, w))
                   | Inr articles \<Rightarrow>
                       (let (evs, out, w') = notify rp create w diff_percent up_down articles
                        in ([GetStockData, CalculatePriceDifference, GetNewsArticles] @ evs,
                            out, w')))
                else ([GetStockData, CalculatePriceDifference,
                       Print (BelowThreshold diff_percent PERCENTAGE_THRESHOLD)], Done, w))))"

subsection \<open>Example inputs\<close>

text \<open>
  A daily bar as the quote provider sends it, with the given text as its close; a series
  of two bars, most recent first; and the reply that carries such a series.
\<close>

definition bar_with_close :: "string \<Rightarrow> json" where
  "bar_with_close s =
     JObj [(''1. open'', JStr ''215.5000''), (''2. high'', JStr ''221.0000''),
           (''3. low'', JStr ''209.1000''), (''4. close'', JStr s),
           (''5. volume'', JStr ''81000000'')]"

definition two_day_series :: "string \<Rightarrow> string \<Rightarrow> json" where
  "two_day_series c0 c1 =
     JObj [(''2024-01-03'', bar_with_close c0), (''2024-01-02'', bar_with_close c1)]"

definition stock_body :: "json \<Rightarrow> json http_reply" where
  "stock_body series =
     Body [(''Meta Data'', JObj [(''2. Symbol'', JStr ''TSLA'')]),
           (''Time Series (Daily)'', series)]"

text \<open>A messaging client whose second send fails; the world state counts the sends.\<close>

definition second_send_fails :: "string \<Rightarrow> nat \<Rightarrow> (error + string) \<times> nat" where
  "second_send_fails body n = (if n = 1 then Inl TwilioException else Inr ''queued'', Suc n)"

section \<open>Properties\<close>

subsection \<open>Auxiliary facts\<close>









subsection \<open>Change calculator\<close>





text \<open>
  The claim speaks of a nonzero most recent close. Under a negative one the quotient of
  line 66 changes sign while the direction of line 63 does not.
\<close>

lemma negative_close_flips_sign:
  "calculate_price_difference decimal_float (two_day_series ''-100.00'' ''-90.00'')
     = Inr (10, Down)"
  by code_simp









subsection \<open>Orchestration\<close>

text \<open>
  Claim C9: when the body of the price reply has no \<open>Time Series (Daily)\<close> key the
  price fetcher raises \<open>KeyError\<close>, the script's error for a reply of the wrong shape;
  and whatever the price fetcher raises, the run ends there: a \<open>RequestException\<close> is
  printed and followed by \<open>exit()\<close>, any other exception is uncaught, and in both cases
  the change is not computed, no news is fetched, nothing is formatted and no message is
  sent.
\<close>

theorem price_fetch_failure_is_fatal:
  "(map_of fields ''Time Series (Daily)'' = None \<longrightarrow>
      get_stock_data (Body fields) = Inl KeyError)
   \<and> (get_stock_data stock_reply = Inl e \<longrightarrow>
        (\<exists>evs out. main pf rp stock_reply news_reply create w = (evs, out, w)
           \<and> (e = RequestException \<longrightarrow> out = Exited \<and> evs = [GetStockData, Print StockError])
           \<and> (e \<noteq> RequestException \<longrightarrow> out = Uncaught e \<and> evs = [GetStockData])
           \<and> CalculatePriceDifference \<notin> set evs \<and> GetNewsArticles \<notin> set evs
           \<and> FormatNewsArticles \<notin> set evs \<and> SendSmsMessages \<notin> set evs
           \<and> attempted evs = []))"
  by (auto simp: get_stock_data_def main_def)

text \<open>
  Witness of C9: a reply that carries a rate-limit note instead of the series, and a
  failed request.
\<close>

theorem price_fetch_failure_is_fatal_witness:
  "map_of [(''Note'', JStr ''rate limit reached'')] ''Time Series (Daily)'' = None
   \<and> get_stock_data (Body [(''Note'', JStr ''rate limit reached'')]) = Inl KeyError
   \<and> main decimal_float (\<lambda>v. []) (Body [(''Note'', JStr ''rate limit reached'')]) RequestFailed second_send_fails 0
       = ([GetStockData], Uncaught KeyError, 0)
   \<and> main decimal_float (\<lambda>v. []) RequestFailed RequestFailed second_send_fails 0
       = ([GetStockData, Print StockError], Exited, 0)"
proof -
  have m: "map_of [(''Note'', JStr ''rate limit reached'')] ''Time Series (Daily)'' = None"
    by simp
  have r: "get_stock_data RequestFailed = Inl RequestException"
    by (simp add: get_stock_data_def)
  show ?thesis
    using price_fetch_failure_is_fatal
            [of "[(''Note'', JStr ''rate limit reached'')]"
                "Body [(''Note'', JStr ''rate limit reached'')]" KeyError
                decimal_float "\<lambda>v. []" RequestFailed second_send_fails 0]
          price_fetch_failure_is_fatal
            [of "[]" RequestFailed RequestException decimal_float "\<lambda>v. []" RequestFailed second_send_fails 0]
          m r
    by auto
qed

text \<open>
  Claim C2: when the absolute value of the computed percent is at most the threshold,
  which is 1, the run prints that the change did not reach the threshold and stops: the
  news fetcher, the formatter and the notifier are not called and no send is attempted.
\<close>

theorem below_threshold_stops:
  assumes "get_stock_data stock_reply = Inr stock_data"
    and "calculate_price_difference pf stock_data = Inr (p, d)"
    and "\<bar>p\<bar> \<le> PERCENTAGE_THRESHOLD"
  shows "\<exists>evs. main pf rp stock_reply news_reply create w = (evs, Done, w)
           \<and> evs = [GetStockData, CalculatePriceDifference,
                    Print (BelowThreshold p PERCENTAGE_THRESHOLD)]
           \<and> GetNewsArticles \<notin> set evs \<and> FormatNewsArticles \<notin> set evs
           \<and> SendSmsMessages \<notin> set evs \<and> attempted evs = []"
  using assms by (simp add: main_def)

text \<open>
  Witness of C2, on the boundary: the closes \<open>219.00\<close> and \<open>217.00\<close> give percent 1,
  equal to the threshold.
\<close>

theorem below_threshold_stops_witness:
  "calculate_price_difference decimal_float (two_day_series ''219.00'' ''217.00'') = Inr (1, Up)
   \<and> \<bar>1\<bar> \<le> PERCENTAGE_THRESHOLD
   \<and> main decimal_float (\<lambda>v. []) (stock_body (two_day_series ''219.00'' ''217.00'')) RequestFailed
        second_send_fails 0
       = ([GetStockData, CalculatePriceDifference, Print (BelowThreshold 1 1)], Done, 0)"
proof -
  have s: "get_stock_data (stock_body (two_day_series ''219.00'' ''217.00''))
             = Inr (two_day_series ''219.00'' ''217.00'')"
    by (simp add: get_stock_data_def stock_body_def)
  have c: "calculate_price_difference decimal_float (two_day_series ''219.00'' ''217.00'')
             = Inr (1, Up)"
    by code_simp
  have t: "\<bar>1\<bar> \<le> PERCENTAGE_THRESHOLD" by (simp add: PERCENTAGE_THRESHOLD_def)
  show ?thesis
    using below_threshold_stops [OF s c t, of "\<lambda>v. []" RequestFailed second_send_fails 0] c t
    by (simp add: PERCENTAGE_THRESHOLD_def)
qed

text \<open>
  Claim C5: when the percent exceeds the threshold and the news fetch raises a
  \<open>RequestException\<close>, the exception is caught and printed, the run goes on with an
  empty list of articles, prints that no relevant article was found and ends normally,
  with no message sent.
\<close>

theorem news_failure_degrades:
  assumes "get_stock_data stock_reply = Inr stock_data"
    and "calculate_price_difference pf stock_data = Inr (p, d)"
    and "PERCENTAGE_THRESHOLD < \<bar>p\<bar>"
    and "get_news_articles news_reply 3 = Inl RequestException"
  shows "\<exists>evs. main pf rp stock_reply news_reply create w = (evs, Done, w)
           \<and> evs = [GetStockData, CalculatePriceDifference, GetNewsArticles,
                    Print NewsError, Print NoArticles]
           \<and> FormatNewsArticles \<notin> set evs \<and> SendSmsMessages \<notin> set evs
           \<and> attempted evs = []"
  using assms by (simp add: main_def notify_def)

text \<open>
  Witness of C5: the closes \<open>219.00\<close> and \<open>210.00\<close> pass the threshold and the news
  request fails.
\<close>

theorem news_failure_degrades_witness:
  "main decimal_float (\<lambda>v. []) (stock_body (two_day_series ''219.00'' ''210.00'')) RequestFailed
        second_send_fails 0
     = ([GetStockData, CalculatePriceDifference, GetNewsArticles, Print NewsError,
         Print NoArticles], Done, 0)"
proof -
  have s: "get_stock_data (stock_body (two_day_series ''219.00'' ''210.00''))
             = Inr (two_day_series ''219.00'' ''210.00'')"
    by (simp add: get_stock_data_def stock_body_def)
  have c: "calculate_price_difference decimal_float (two_day_series ''219.00'' ''210.00'')
             = Inr (4, Up)"
    by code_simp
  have t: "PERCENTAGE_THRESHOLD < \<bar>4\<bar>" by (simp add: PERCENTAGE_THRESHOLD_def)
  have n: "get_news_articles RequestFailed 3 = Inl RequestException"
    by (simp add: get_news_articles_def)
  show ?thesis
    using news_failure_degrades [OF s c t n, of "\<lambda>v. []" second_send_fails 0] by simp
qed

subsection \<open>Notifier\<close>



subsection \<open>Message formatter\<close>





end
